theory Spec2Isabelle
  imports Complex_Main
begin

section \<open>The geometric classifier of \<^verbatim>\<open>state_logic.py\<close>\<close>

text \<open>
  Coordinates and distances are modelled as real numbers: the comparisons, subtractions
  and \<^verbatim>\<open>float(...)\<close> conversions of the source are exact on the pixel integers the
  program feeds in, and \<^verbatim>\<open>math.hypot\<close> is taken as the mathematical function it
  computes. Rounding of binary floating point, NaN and the overflow of huge Python
  integers in \<^verbatim>\<open>float\<close> lie outside this model.
\<close>

type_synonym point = "real \<times> real"

type_synonym rect = "real \<times> real \<times> real \<times> real"

text \<open>\<^verbatim>\<open>math.hypot(x, y)\<close>: the Euclidean norm of the vector \<open>(x, y)\<close>.\<close>

definition hypot :: "real \<Rightarrow> real \<Rightarrow> real" where
  "hypot x y = sqrt (x\<^sup>2 + y\<^sup>2)"

text \<open>
  \<^verbatim>\<open>distance_point_to_rect(pt, rect)\<close>, branch by branch in the order of the source.
  Python's \<^verbatim>\<open>min\<close> of the four-element list is \<^const>\<open>min_list\<close>.
\<close>

fun distance_point_to_rect :: "point \<Rightarrow> rect \<Rightarrow> real" where
  "distance_point_to_rect (cx, cy) (rx1, ry1, rx2, ry2) =
     (if rx1 \<le> cx \<and> cx \<le> rx2 \<and> ry1 \<le> cy \<and> cy \<le> ry2 then 0
      else if rx1 \<le> cx \<and> cx \<le> rx2 then
        (if cy < ry1 then ry1 - cy else cy - ry2)
      else if ry1 \<le> cy \<and> cy \<le> ry2 then
        (if cx < rx1 then rx1 - cx else cx - rx2)
      else
        (let corners = [(rx1, ry1), (rx1, ry2), (rx2, ry1), (rx2, ry2)];
             dists = map (\<lambda>(x, y). hypot (cx - x) (cy - y)) corners
         in min_list dists))"

datatype state = SAFE | WARNING | DANGER

text \<open>
  The exceptions of Python that the modelled code can raise. The classifier itself only
  raises \<^verbatim>\<open>TypeError\<close>; the other two belong to the statement-level model below.
\<close>

datatype error = TypeError | ValueError | NameError

text \<open>
  The value passed as \<^verbatim>\<open>distance\<close>. Python is dynamically typed, so the argument is
  a number, \<^verbatim>\<open>None\<close> (the absent distance), or some other object that
  \<^verbatim>\<open>float()\<close> does not accept.
\<close>

datatype distance_arg = Number real | Absent | Other

text \<open>\<^verbatim>\<open>float(distance)\<close>: the identity on numbers, a \<^verbatim>\<open>TypeError\<close> otherwise.\<close>

fun py_float :: "distance_arg \<Rightarrow> error + real" where
  "py_float (Number d) = Inr d"
| "py_float Absent = Inl TypeError"
| "py_float Other = Inl TypeError"

definition classify_state :: "distance_arg \<Rightarrow> bool \<Rightarrow> error + state" where
  "classify_state distance hand_present =
     (if \<not> hand_present then Inr SAFE
      else case py_float distance of
        Inl e \<Rightarrow> Inl e
      | Inr d \<Rightarrow>
          if d = 0 \<or> d \<le> 60 then Inr DANGER
          else if 60 < d \<and> d \<le> 120 then Inr WARNING
          else if d > 120 then Inr SAFE
          else Inr SAFE)"

text \<open>
  The path condition of the last \<^verbatim>\<open>return 'SAFE'\<close> of \<^verbatim>\<open>classify_state\<close>
  (the one commented "should not be reached"): every guard before it was false.
\<close>

definition fallback_reached :: "real \<Rightarrow> bool" where
  "fallback_reached d =
     (\<not> (d = 0 \<or> d \<le> 60) \<and> \<not> (60 < d \<and> d \<le> 120) \<and> \<not> d > 120)"

section \<open>The frame loop of \<^verbatim>\<open>main.py\<close>\<close>

definition clamp :: "int \<Rightarrow> int \<Rightarrow> int \<Rightarrow> int" where
  "clamp val vmin vmax = max vmin (min vmax val)"

definition FRAME_W :: int where
  "FRAME_W = 640"

definition FRAME_H :: int where
  "FRAME_H = 480"

text \<open>The four local variables of \<^verbatim>\<open>main\<close> that hold the virtual rectangle.\<close>

record rect_vars =
  rect_x1 :: int
  rect_y1 :: int
  rect_x2 :: int
  rect_y2 :: int

definition initial_rect :: rect_vars where
  "initial_rect = \<lparr>rect_x1 = 220, rect_y1 = 140, rect_x2 = 420, rect_y2 = 340\<rparr>"

text \<open>\<^verbatim>\<open>ord(c)\<close>, the code of a character; a key is \<^verbatim>\<open>cv2.waitKey(1) & 0xFF\<close>.\<close>

definition ord :: "char \<Rightarrow> nat" where
  "ord c = of_char c"

text \<open>
  The effect of one key on the rectangle: the \<^verbatim>\<open>elif key in (ord('w'), ...)\<close>
  arm shifts one axis by \<open>step\<close> and then clamps all four coordinates; every other key
  leaves the rectangle alone.
\<close>

definition handle_key :: "nat \<Rightarrow> rect_vars \<Rightarrow> rect_vars" where
  "handle_key key r =
     (if key \<in> set [ord CHR ''w'', ord CHR ''a'', ord CHR ''s'', ord CHR ''d''] then
        (let step = 10;
             r1 = (if key = ord CHR ''w'' then
                     r\<lparr>rect_y1 := rect_y1 r - step, rect_y2 := rect_y2 r - step\<rparr>
                   else if key = ord CHR ''s'' then
                     r\<lparr>rect_y1 := rect_y1 r + step, rect_y2 := rect_y2 r + step\<rparr>
                   else if key = ord CHR ''a'' then
                     r\<lparr>rect_x1 := rect_x1 r - step, rect_x2 := rect_x2 r - step\<rparr>
                   else if key = ord CHR ''d'' then
                     r\<lparr>rect_x1 := rect_x1 r + step, rect_x2 := rect_x2 r + step\<rparr>
                   else r)
         in \<lparr>rect_x1 = clamp (rect_x1 r1) 0 (FRAME_W - 1),
             rect_y1 = clamp (rect_y1 r1) 0 (FRAME_H - 1),
             rect_x2 = clamp (rect_x2 r1) 1 FRAME_W,
             rect_y2 = clamp (rect_y2 r1) 1 FRAME_H\<rparr>)
      else r)"

text \<open>
  The rectangle after the loop has read a sequence of keys, one per frame;
  \<^verbatim>\<open>'q'\<close> leaves the loop.
\<close>

fun run_keys :: "rect_vars \<Rightarrow> nat list \<Rightarrow> rect_vars" where
  "run_keys r [] = r"
| "run_keys r (key # keys) =
     (if key = ord CHR ''q'' then r else run_keys (handle_key key r) keys)"

text \<open>The tuple \<^verbatim>\<open>rect\<close> built every frame, and a centroid, as the classifier sees them.\<close>

definition rect_tuple :: "rect_vars \<Rightarrow> rect" where
  "rect_tuple r =
     (real_of_int (rect_x1 r), real_of_int (rect_y1 r),
      real_of_int (rect_x2 r), real_of_int (rect_y2 r))"

definition pixel_point :: "int \<times> int \<Rightarrow> point" where
  "pixel_point c = (real_of_int (fst c), real_of_int (snd c))"

text \<open>
  "Compute distance and classify": the pair \<open>(d, state)\<close> of one frame, from the
  centroid the tracker returned (\<open>None\<close> when no hand was found).
\<close>

definition compute_frame :: "(int \<times> int) option \<Rightarrow> rect_vars \<Rightarrow> real option \<times> (error + state)" where
  "compute_frame centroid r =
     (let rect = rect_tuple r in
      case centroid of
        None \<Rightarrow> (None, Inr SAFE)
      | Some c \<Rightarrow>
          (let d = distance_point_to_rect (pixel_point c) rect
           in (Some d, classify_state (Number d) True)))"

section \<open>Reference notions the properties are stated against\<close>

text \<open>The structural invariant of a rectangle: left of right, top above bottom.\<close>

definition valid_rect :: "rect \<Rightarrow> bool" where
  "valid_rect r = (case r of (x1, y1, x2, y2) \<Rightarrow> x2 > x1 \<and> y2 > y1)"

text \<open>The points of a rectangle, boundary and interior.\<close>

definition rect_points :: "rect \<Rightarrow> point set" where
  "rect_points r = (case r of (x1, y1, x2, y2) \<Rightarrow>
     {(x, y). x1 \<le> x \<and> x \<le> x2 \<and> y1 \<le> y \<and> y \<le> y2})"

definition euclid :: "point \<Rightarrow> point \<Rightarrow> real" where
  "euclid p q = hypot (fst p - fst q) (snd p - snd q)"

text \<open>
  The reference definition in the words of the specification: clamp each coordinate of
  the point into the span of the rectangle, and take the distance to that nearest point.
\<close>

definition nearest_point :: "point \<Rightarrow> rect \<Rightarrow> point" where
  "nearest_point p r = (case r of (x1, y1, x2, y2) \<Rightarrow>
     (max x1 (min x2 (fst p)), max y1 (min y2 (snd p))))"

definition nearest_point_distance :: "point \<Rightarrow> rect \<Rightarrow> real" where
  "nearest_point_distance p r = euclid p (nearest_point p r)"

text \<open>
  The uniform classification the specification describes for a frame: always call the
  classifier, with the presence flag saying whether a centroid exists.
\<close>

definition uniform_frame_state :: "(int \<times> int) option \<Rightarrow> rect_vars \<Rightarrow> error + state" where
  "uniform_frame_state centroid r =
     classify_state
       (case centroid of
          None \<Rightarrow> Absent
        | Some c \<Rightarrow> Number (distance_point_to_rect (pixel_point c) (rect_tuple r)))
       (centroid \<noteq> None)"

text \<open>The rectangle of \<^verbatim>\<open>main\<close> is well formed and lies in the frame.\<close>

definition rect_in_frame :: "rect_vars \<Rightarrow> bool" where
  "rect_in_frame r =
     (rect_x1 r < rect_x2 r \<and> rect_y1 r < rect_y2 r \<and>
      0 \<le> rect_x1 r \<and> rect_x1 r \<le> FRAME_W - 1 \<and> 1 \<le> rect_x2 r \<and> rect_x2 r \<le> FRAME_W \<and>
      0 \<le> rect_y1 r \<and> rect_y1 r \<le> FRAME_H - 1 \<and> 1 \<le> rect_y2 r \<and> rect_y2 r \<le> FRAME_H)"

text \<open>
  The inputs the specification calls well formed for the classifier: a non-negative real
  distance with either presence flag, or the absent distance when no hand was detected
  (an absent distance means that there is no point, so it never comes with
  \<open>hand_present = True\<close>).
\<close>

definition well_formed_input :: "distance_arg \<Rightarrow> bool \<Rightarrow> bool" where
  "well_formed_input distance hand_present =
     (case distance of
        Number d \<Rightarrow> 0 \<le> d
      | Absent \<Rightarrow> \<not> hand_present
      | Other \<Rightarrow> False)"

section \<open>The two functions, statement by statement\<close>

text \<open>
  Whether a function reads or writes state of its own cannot be seen on a HOL function,
  which has none. So the bodies of the two functions are written a second time, as
  statements of a small language with Python's two kinds of variables: the locals of
  a call, and a store of module-level variables that any expression may read
  (\<open>Global\<close>) and any statement may write (\<open>GlobalAssign\<close>). An interpreter runs
  a body on a store and returns the store it leaves behind.

  Values are numbers, \<^verbatim>\<open>None\<close>, booleans, strings, sequences (tuples and lists
  alike) and opaque objects. Arithmetic and ordering are defined on numbers, with
  booleans counting as 0 and 1, and raise \<^verbatim>\<open>TypeError\<close> on anything else; Python
  also orders two strings or two sequences, unpacks a string and converts a numeric
  string with \<^verbatim>\<open>float\<close>, which the documented inputs of the two functions never
  exercise and which are not modelled. The names \<^verbatim>\<open>float\<close>, \<^verbatim>\<open>min\<close> and
  \<^verbatim>\<open>math.hypot\<close> denote the library functions.
\<close>

datatype val = Num real | NoneV | Bool bool | Str string | Seq "val list" | Obj

fun as_num :: "val \<Rightarrow> real option" where
  "as_num (Num r) = Some r"
| "as_num (Bool b) = Some (if b then 1 else 0)"
| "as_num v = None"

text \<open>Truth value testing, as \<^verbatim>\<open>if\<close>, \<^verbatim>\<open>not\<close>, \<^verbatim>\<open>and\<close>, \<^verbatim>\<open>or\<close> apply it.\<close>

fun truthy :: "val \<Rightarrow> bool" where
  "truthy (Num r) = (r \<noteq> 0)"
| "truthy NoneV = False"
| "truthy (Bool b) = b"
| "truthy (Str s) = (s \<noteq> [])"
| "truthy (Seq vs) = (vs \<noteq> [])"
| "truthy Obj = True"

datatype binop = Minus | LessEq | Less | Greater | Equal

fun apply_binop :: "binop \<Rightarrow> val \<Rightarrow> val \<Rightarrow> error + val" where
  "apply_binop Equal a b =
     Inr (Bool (case (as_num a, as_num b) of (Some x, Some y) \<Rightarrow> x = y | _ \<Rightarrow> a = b))"
| "apply_binop op a b =
     (case (as_num a, as_num b) of
        (Some x, Some y) \<Rightarrow>
          Inr (case op of Minus \<Rightarrow> Num (x - y) | LessEq \<Rightarrow> Bool (x \<le> y)
               | Less \<Rightarrow> Bool (x < y) | Greater \<Rightarrow> Bool (x > y) | Equal \<Rightarrow> Bool (x = y))
      | _ \<Rightarrow> Inl TypeError)"

text \<open>\<^verbatim>\<open>float(v)\<close>, \<^verbatim>\<open>math.hypot(a, b)\<close> and \<^verbatim>\<open>min(v)\<close> on values.\<close>

fun float_of :: "val \<Rightarrow> error + val" where
  "float_of (Str s) = Inl ValueError"
| "float_of v = (case as_num v of Some r \<Rightarrow> Inr (Num r) | None \<Rightarrow> Inl TypeError)"

definition hypot_of :: "val \<Rightarrow> val \<Rightarrow> error + val" where
  "hypot_of a b =
     (case (as_num a, as_num b) of
        (Some x, Some y) \<Rightarrow> Inr (Num (hypot x y))
      | _ \<Rightarrow> Inl TypeError)"

text \<open>The results of a list of computations, or the first error among them.\<close>

fun collect :: "(error + 'a) list \<Rightarrow> error + 'a list" where
  "collect [] = Inr []"
| "collect (Inl e # rs) = Inl e"
| "collect (Inr v # rs) = (case collect rs of Inl e \<Rightarrow> Inl e | Inr vs \<Rightarrow> Inr (v # vs))"

fun min_of :: "val \<Rightarrow> error + val" where
  "min_of (Seq []) = Inl ValueError"
| "min_of (Seq vs) =
     (case collect (map (\<lambda>v. case as_num v of Some r \<Rightarrow> Inr r | None \<Rightarrow> Inl TypeError) vs) of
        Inl e \<Rightarrow> Inl e
      | Inr rs \<Rightarrow> Inr (Num (min_list rs)))"
| "min_of v = Inl TypeError"

type_synonym env = "string \<rightharpoonup> val"

type_synonym store = "string \<rightharpoonup> val"

text \<open>Unpacking \<^verbatim>\<open>a, b = v\<close>: the targets are bound in the local environment.\<close>

fun bind_targets :: "string list \<Rightarrow> val \<Rightarrow> env \<Rightarrow> error + env" where
  "bind_targets names (Seq vs) l =
     (if length vs = length names then Inr (l ++ map_of (zip names vs)) else Inl ValueError)"
| "bind_targets names v l = Inl TypeError"

datatype expr =
    Const val
  | Local string
  | Global string
  | Binop binop expr expr
  | And expr expr
  | Or expr expr
  | LNot expr
  | Float expr
  | Hypot expr expr
  | MinOf expr
  | Display "expr list"
  | Comprehension expr "string list" expr

text \<open>
  Evaluation of an expression in a store \<open>g\<close> and a local environment \<open>l\<close>.
  \<^verbatim>\<open>and\<close> and \<^verbatim>\<open>or\<close> short-circuit and return an operand; a comprehension
  binds its targets for the element expression only.
\<close>

fun eval :: "expr \<Rightarrow> store \<Rightarrow> env \<Rightarrow> error + val"
  and eval_list :: "expr list \<Rightarrow> store \<Rightarrow> env \<Rightarrow> error + val list" where
  "eval (Const v) g l = Inr v"
| "eval (Local x) g l = (case l x of None \<Rightarrow> Inl NameError | Some v \<Rightarrow> Inr v)"
| "eval (Global x) g l = (case g x of None \<Rightarrow> Inl NameError | Some v \<Rightarrow> Inr v)"
| "eval (Binop op a b) g l =
     (case eval a g l of Inl e \<Rightarrow> Inl e
      | Inr x \<Rightarrow> (case eval b g l of Inl e \<Rightarrow> Inl e | Inr y \<Rightarrow> apply_binop op x y))"
| "eval (And a b) g l =
     (case eval a g l of Inl e \<Rightarrow> Inl e
      | Inr x \<Rightarrow> if truthy x then eval b g l else Inr x)"
| "eval (Or a b) g l =
     (case eval a g l of Inl e \<Rightarrow> Inl e
      | Inr x \<Rightarrow> if truthy x then Inr x else eval b g l)"
| "eval (LNot a) g l =
     (case eval a g l of Inl e \<Rightarrow> Inl e | Inr x \<Rightarrow> Inr (Bool (\<not> truthy x)))"
| "eval (Float a) g l =
     (case eval a g l of Inl e \<Rightarrow> Inl e | Inr x \<Rightarrow> float_of x)"
| "eval (Hypot a b) g l =
     (case eval a g l of Inl e \<Rightarrow> Inl e
      | Inr x \<Rightarrow> (case eval b g l of Inl e \<Rightarrow> Inl e | Inr y \<Rightarrow> hypot_of x y))"
| "eval (MinOf a) g l =
     (case eval a g l of Inl e \<Rightarrow> Inl e | Inr x \<Rightarrow> min_of x)"
| "eval (Display es) g l =
     (case eval_list es g l of Inl e \<Rightarrow> Inl e | Inr vs \<Rightarrow> Inr (Seq vs))"
| "eval (Comprehension body names iter) g l =
     (case eval iter g l of Inl e \<Rightarrow> Inl e
      | Inr (Seq vs) \<Rightarrow>
          (case collect (map (\<lambda>v. case bind_targets names v l of
                                     Inl e \<Rightarrow> Inl e
                                   | Inr l' \<Rightarrow> eval body g l') vs) of
             Inl e \<Rightarrow> Inl e
           | Inr rs \<Rightarrow> Inr (Seq rs))
      | Inr _ \<Rightarrow> Inl TypeError)"
| "eval_list [] g l = Inr []"
| "eval_list (a # as) g l =
     (case eval a g l of Inl e \<Rightarrow> Inl e
      | Inr x \<Rightarrow> (case eval_list as g l of Inl e \<Rightarrow> Inl e | Inr xs \<Rightarrow> Inr (x # xs)))"

datatype stmt =
    Assign string expr
  | Unpack "string list" expr
  | GlobalAssign string expr
  | IfElse expr "stmt list" "stmt list"
  | Return expr

text \<open>
  A statement either goes on with a new local environment, returns a value or raises;
  in each case it hands on the store, changed where it assigned to a global.
\<close>

datatype flow = Next env | Returns val | Raises error

fun exec_stmt :: "stmt \<Rightarrow> store \<Rightarrow> env \<Rightarrow> flow \<times> store"
  and exec_block :: "stmt list \<Rightarrow> store \<Rightarrow> env \<Rightarrow> flow \<times> store" where
  "exec_stmt (Assign x e) g l =
     (case eval e g l of Inl err \<Rightarrow> (Raises err, g) | Inr v \<Rightarrow> (Next (l(x \<mapsto> v)), g))"
| "exec_stmt (Unpack names e) g l =
     (case eval e g l of Inl err \<Rightarrow> (Raises err, g)
      | Inr v \<Rightarrow> (case bind_targets names v l of
                    Inl err \<Rightarrow> (Raises err, g) | Inr l' \<Rightarrow> (Next l', g)))"
| "exec_stmt (GlobalAssign x e) g l =
     (case eval e g l of Inl err \<Rightarrow> (Raises err, g) | Inr v \<Rightarrow> (Next l, g(x \<mapsto> v)))"
| "exec_stmt (IfElse c thn els) g l =
     (case eval c g l of Inl err \<Rightarrow> (Raises err, g)
      | Inr v \<Rightarrow> if truthy v then exec_block thn g l else exec_block els g l)"
| "exec_stmt (Return e) g l =
     (case eval e g l of Inl err \<Rightarrow> (Raises err, g) | Inr v \<Rightarrow> (Returns v, g))"
| "exec_block [] g l = (Next l, g)"
| "exec_block (s # ss) g l =
     (case exec_stmt s g l of
        (Next l', g') \<Rightarrow> exec_block ss g' l'
      | (Returns v, g') \<Rightarrow> (Returns v, g')
      | (Raises err, g') \<Rightarrow> (Raises err, g'))"

text \<open>The syntactic check: no read of a global in an expression, no write in a statement.\<close>

fun no_global_expr :: "expr \<Rightarrow> bool" where
  "no_global_expr (Const v) = True"
| "no_global_expr (Local x) = True"
| "no_global_expr (Global x) = False"
| "no_global_expr (Binop op a b) = (no_global_expr a \<and> no_global_expr b)"
| "no_global_expr (And a b) = (no_global_expr a \<and> no_global_expr b)"
| "no_global_expr (Or a b) = (no_global_expr a \<and> no_global_expr b)"
| "no_global_expr (LNot a) = no_global_expr a"
| "no_global_expr (Float a) = no_global_expr a"
| "no_global_expr (Hypot a b) = (no_global_expr a \<and> no_global_expr b)"
| "no_global_expr (MinOf a) = no_global_expr a"
| "no_global_expr (Display es) = list_all no_global_expr es"
| "no_global_expr (Comprehension body names iter) = (no_global_expr body \<and> no_global_expr iter)"

fun no_global_stmt :: "stmt \<Rightarrow> bool" where
  "no_global_stmt (Assign x e) = no_global_expr e"
| "no_global_stmt (Unpack names e) = no_global_expr e"
| "no_global_stmt (GlobalAssign x e) = False"
| "no_global_stmt (IfElse c thn els) =
     (no_global_expr c \<and> list_all no_global_stmt thn \<and> list_all no_global_stmt els)"
| "no_global_stmt (Return e) = no_global_expr e"

datatype outcome = Returned val | Raised error

text \<open>
  A call binds the parameters to the arguments in a fresh local environment and runs the
  body; a body that ends without \<^verbatim>\<open>return\<close> returns \<^verbatim>\<open>None\<close>.
\<close>

definition call_function :: "string list \<Rightarrow> stmt list \<Rightarrow> val list \<Rightarrow> store \<Rightarrow> outcome \<times> store" where
  "call_function params body args g =
     (if length args \<noteq> length params then (Raised TypeError, g)
      else case exec_block body g (map_of (zip params args)) of
        (Next l, g') \<Rightarrow> (Returned NoneV, g')
      | (Returns v, g') \<Rightarrow> (Returned v, g')
      | (Raises err, g') \<Rightarrow> (Raised err, g'))"

text \<open>The chained comparison \<^verbatim>\<open>a <= b <= c\<close> is \<^verbatim>\<open>a <= b and b <= c\<close>.\<close>

abbreviation Between :: "expr \<Rightarrow> expr \<Rightarrow> expr \<Rightarrow> expr" where
  "Between a b c \<equiv> And (Binop LessEq a b) (Binop LessEq b c)"

text \<open>\<^verbatim>\<open>def distance_point_to_rect(pt, rect)\<close>, lines 33 to 57 of \<^verbatim>\<open>state_logic.py\<close>.\<close>

definition distance_point_to_rect_params :: "string list" where
  "distance_point_to_rect_params = [''pt'', ''rect'']"

definition distance_point_to_rect_body :: "stmt list" where
  "distance_point_to_rect_body =
     [Unpack [''cx'', ''cy''] (Local ''pt''),
      Unpack [''rx1'', ''ry1'', ''rx2'', ''ry2''] (Local ''rect''),
      IfElse (And (Between (Local ''rx1'') (Local ''cx'') (Local ''rx2''))
                  (Between (Local ''ry1'') (Local ''cy'') (Local ''ry2'')))
        [Return (Const (Num 0))] [],
      IfElse (Between (Local ''rx1'') (Local ''cx'') (Local ''rx2''))
        [IfElse (Binop Less (Local ''cy'') (Local ''ry1''))
           [Return (Float (Binop Minus (Local ''ry1'') (Local ''cy'')))]
           [Return (Float (Binop Minus (Local ''cy'') (Local ''ry2'')))]] [],
      IfElse (Between (Local ''ry1'') (Local ''cy'') (Local ''ry2''))
        [IfElse (Binop Less (Local ''cx'') (Local ''rx1''))
           [Return (Float (Binop Minus (Local ''rx1'') (Local ''cx'')))]
           [Return (Float (Binop Minus (Local ''cx'') (Local ''rx2'')))]] [],
      Assign ''corners''
        (Display [Display [Local ''rx1'', Local ''ry1''], Display [Local ''rx1'', Local ''ry2''],
                  Display [Local ''rx2'', Local ''ry1''], Display [Local ''rx2'', Local ''ry2'']]),
      Assign ''dists''
        (Comprehension
           (Hypot (Binop Minus (Local ''cx'') (Local ''x''))
                  (Binop Minus (Local ''cy'') (Local ''y'')))
           [''x'', ''y''] (Local ''corners'')),
      Return (Float (MinOf (Local ''dists'')))]"

text \<open>\<^verbatim>\<open>def classify_state(distance, hand_present)\<close>, lines 72 to 88.\<close>

definition classify_state_params :: "string list" where
  "classify_state_params = [''distance'', ''hand_present'']"

definition classify_state_body :: "stmt list" where
  "classify_state_body =
     [IfElse (LNot (Local ''hand_present'')) [Return (Const (Str ''SAFE''))] [],
      Assign ''d'' (Float (Local ''distance'')),
      IfElse (Or (Binop Equal (Local ''d'') (Const (Num 0)))
                 (Binop LessEq (Local ''d'') (Const (Num 60))))
        [Return (Const (Str ''DANGER''))] [],
      IfElse (And (Binop Less (Const (Num 60)) (Local ''d''))
                  (Binop LessEq (Local ''d'') (Const (Num 120))))
        [Return (Const (Str ''WARNING''))] [],
      IfElse (Binop Greater (Local ''d'') (Const (Num 120)))
        [Return (Const (Str ''SAFE''))] [],
      Return (Const (Str ''SAFE''))]"

text \<open>
  A session: calls of the two functions with any argument values, in any order, each run
  by the interpreter on the store the call before it left.
\<close>

datatype call = Call_distance val val | Call_classify val val

fun exec_call :: "call \<Rightarrow> store \<Rightarrow> outcome \<times> store" where
  "exec_call (Call_distance pt rect) g =
     call_function distance_point_to_rect_params distance_point_to_rect_body [pt, rect] g"
| "exec_call (Call_classify distance hand_present) g =
     call_function classify_state_params classify_state_body [distance, hand_present] g"

fun run_calls :: "call list \<Rightarrow> store \<Rightarrow> outcome list \<times> store" where
  "run_calls [] g = ([], g)"
| "run_calls (c # cs) g =
     (case exec_call c g of (out, g') \<Rightarrow>
        (case run_calls cs g' of (outs, g'') \<Rightarrow> (out # outs, g'')))"

text \<open>The arguments and results of the functional model as values of the interpreter.\<close>

fun point_val :: "point \<Rightarrow> val" where
  "point_val (x, y) = Seq [Num x, Num y]"

fun rect_val :: "rect \<Rightarrow> val" where
  "rect_val (x1, y1, x2, y2) = Seq [Num x1, Num y1, Num x2, Num y2]"

fun arg_val :: "distance_arg \<Rightarrow> val" where
  "arg_val (Number d) = Num d"
| "arg_val Absent = NoneV"
| "arg_val Other = Obj"

fun state_val :: "state \<Rightarrow> val" where
  "state_val SAFE = Str ''SAFE''"
| "state_val WARNING = Str ''WARNING''"
| "state_val DANGER = Str ''DANGER''"

fun result_outcome :: "error + state \<Rightarrow> outcome" where
  "result_outcome (Inl e) = Raised e"
| "result_outcome (Inr s) = Returned (state_val s)"

section \<open>Facts about \<^const>\<open>hypot\<close> and \<^const>\<open>clamp\<close>\<close>

lemma hypot_mono: "\<bar>a\<bar> \<le> \<bar>c\<bar> \<Longrightarrow> \<bar>b\<bar> \<le> \<bar>d\<bar> \<Longrightarrow> hypot a b \<le> hypot c d"
  unfolding hypot_def
  by (intro real_sqrt_le_mono add_mono) (simp_all add: abs_le_square_iff)

lemma hypot_0_left: "hypot 0 y = \<bar>y\<bar>"
  by (simp add: hypot_def)

lemma hypot_0_right: "hypot x 0 = \<bar>x\<bar>"
  by (simp add: hypot_def)

lemma hypot_nonneg: "0 \<le> hypot x y"
  by (simp add: hypot_def)

lemma hypot_eq_0_iff: "hypot x y = 0 \<longleftrightarrow> x = 0 \<and> y = 0"
  by (simp add: hypot_def)

lemma hypot_abs: "hypot \<bar>x\<bar> \<bar>y\<bar> = hypot x y"
  by (simp add: hypot_def)

lemma hypot_cong_abs: "\<bar>a\<bar> = \<bar>c\<bar> \<Longrightarrow> \<bar>b\<bar> = \<bar>d\<bar> \<Longrightarrow> hypot a b = hypot c d"
  by (metis hypot_abs)

lemma clamp_bounds: "lo \<le> hi \<Longrightarrow> lo \<le> clamp v lo hi \<and> clamp v lo hi \<le> hi"
  by (simp add: clamp_def)

lemma clamp_step:
  assumes "a < b" "lo \<le> hi"
  shows "clamp a lo hi < clamp b (lo + 1) (hi + 1)"
  using assms by (simp add: clamp_def max_def min_def)

section \<open>The four branches compute the distance to the nearest point\<close>

lemma corner_min:
  assumes "hypot a b \<le> hypot a d" "hypot a b \<le> hypot c b" "hypot a b \<le> hypot c d"
  shows "min_list [hypot a b, hypot a d, hypot c b, hypot c d] = hypot a b"
    and "min_list [hypot a d, hypot a b, hypot c d, hypot c b] = hypot a b"
    and "min_list [hypot c b, hypot c d, hypot a b, hypot a d] = hypot a b"
    and "min_list [hypot c d, hypot c b, hypot a d, hypot a b] = hypot a b"
  using assms by (simp_all add: min_def)

lemma distance_eq_nearest:
  assumes "x1 < x2" "y1 < y2"
  shows "distance_point_to_rect (px, py) (x1, y1, x2, y2) =
         nearest_point_distance (px, py) (x1, y1, x2, y2)"
proof -
  let ?corner_dists = "[hypot (px - x1) (py - y1), hypot (px - x1) (py - y2),
        hypot (px - x2) (py - y1), hypot (px - x2) (py - y2)]"
  note unfold = nearest_point_distance_def nearest_point_def euclid_def
  consider (inside) "x1 \<le> px" "px \<le> x2" "y1 \<le> py" "py \<le> y2"
    | (above) "x1 \<le> px" "px \<le> x2" "py < y1"
    | (below) "x1 \<le> px" "px \<le> x2" "y2 < py"
    | (left) "y1 \<le> py" "py \<le> y2" "px < x1"
    | (right) "y1 \<le> py" "py \<le> y2" "x2 < px"
    | (left_above) "px < x1" "py < y1"
    | (left_below) "px < x1" "y2 < py"
    | (right_above) "x2 < px" "py < y1"
    | (right_below) "x2 < px" "y2 < py"
    by linarith
  then show ?thesis
  proof cases
    case inside
    then show ?thesis by (simp add: unfold hypot_0_left)
  next
    case above
    with assms show ?thesis by (simp add: unfold hypot_0_left)
  next
    case below
    with assms show ?thesis by (simp add: unfold hypot_0_left)
  next
    case left
    with assms show ?thesis by (simp add: unfold hypot_0_right)
  next
    case right
    with assms show ?thesis by (simp add: unfold hypot_0_right)
  next
    case left_above
    with assms have "min_list ?corner_dists = hypot (px - x1) (py - y1)"
      by (intro corner_min hypot_mono) simp_all
    with left_above assms show ?thesis by (simp add: unfold)
  next
    case left_below
    with assms have "min_list ?corner_dists = hypot (px - x1) (py - y2)"
      by (intro corner_min hypot_mono) simp_all
    with left_below assms show ?thesis by (simp add: unfold)
  next
    case right_above
    with assms have "min_list ?corner_dists = hypot (px - x2) (py - y1)"
      by (intro corner_min hypot_mono) simp_all
    with right_above assms show ?thesis by (simp add: unfold)
  next
    case right_below
    with assms have "min_list ?corner_dists = hypot (px - x2) (py - y2)"
      by (intro corner_min hypot_mono) simp_all
    with right_below assms show ?thesis by (simp add: unfold)
  qed
qed

lemma nearest_in_rect:
  assumes "x1 < x2" "y1 < y2"
  shows "nearest_point p (x1, y1, x2, y2) \<in> rect_points (x1, y1, x2, y2)"
  using assms by (auto simp: nearest_point_def rect_points_def)

lemma nearest_le:
  assumes "(qx, qy) \<in> rect_points (x1, y1, x2, y2)"
  shows "nearest_point_distance (px, py) (x1, y1, x2, y2) \<le> euclid (px, py) (qx, qy)"
  unfolding nearest_point_distance_def euclid_def nearest_point_def
  using assms by (auto simp: rect_points_def intro!: hypot_mono)

lemma nearest_zero_iff:
  assumes "x1 < x2" "y1 < y2"
  shows "nearest_point_distance (px, py) (x1, y1, x2, y2) = 0 \<longleftrightarrow>
         (px, py) \<in> rect_points (x1, y1, x2, y2)"
  unfolding nearest_point_distance_def euclid_def nearest_point_def
  using assms by (auto simp: rect_points_def hypot_eq_0_iff max_def min_def)

text \<open>
  Claim C1. For a rectangle with \<open>x2 > x1\<close> and \<open>y2 > y1\<close>, the four-branch result
  equals the reference distance to the nearest point (each coordinate clamped into the
  rectangle's span); it is the minimum Euclidean distance to the rectangle, attained at
  a point of the rectangle and never above the distance to any of its points; and it is
  0 exactly for the points on or inside the rectangle.
\<close>

theorem distance_is_true_minimum:
  assumes "valid_rect R"
  shows "distance_point_to_rect P R = nearest_point_distance P R \<and>
         (\<exists>Q \<in> rect_points R. euclid P Q = distance_point_to_rect P R) \<and>
         (\<forall>Q \<in> rect_points R. distance_point_to_rect P R \<le> euclid P Q) \<and>
         (distance_point_to_rect P R = 0 \<longleftrightarrow> P \<in> rect_points R)"
proof -
  obtain x1 y1 x2 y2 where R: "R = (x1, y1, x2, y2)"
    by (cases R) auto
  obtain px py where P: "P = (px, py)"
    by (cases P) auto
  from assms R have lt: "x1 < x2" "y1 < y2"
    by (simp_all add: valid_rect_def)
  have eq: "distance_point_to_rect P R = nearest_point_distance P R"
    unfolding P R using lt by (rule distance_eq_nearest)
  have attained: "\<exists>Q \<in> rect_points R. euclid P Q = nearest_point_distance P R"
    unfolding R nearest_point_distance_def
    using nearest_in_rect [OF lt, of P] by blast
  have lower: "\<forall>Q \<in> rect_points R. nearest_point_distance P R \<le> euclid P Q"
    unfolding P R using nearest_le by auto
  have zero: "nearest_point_distance P R = 0 \<longleftrightarrow> P \<in> rect_points R"
    unfolding P R using lt by (rule nearest_zero_iff)
  from attained lower zero show ?thesis
    unfolding eq by blast
qed

theorem distance_is_true_minimum_witness:
  "valid_rect (0, 0, 100, 100) \<and> (100, 100) \<in> rect_points (0, 0, 100, 100) \<and>
   distance_point_to_rect (110, 110) (0, 0, 100, 100) =
     nearest_point_distance (110, 110) (0, 0, 100, 100) \<and>
   distance_point_to_rect (110, 110) (0, 0, 100, 100) \<le> euclid (110, 110) (100, 100) \<and>
   distance_point_to_rect (110, 110) (0, 0, 100, 100) \<noteq> 0"
proof -
  have v: "valid_rect (0, 0, 100, 100)"
    by (simp add: valid_rect_def)
  have m: "(100, 100) \<in> rect_points (0, 0, 100, 100)"
       "(110, 110) \<notin> rect_points (0, 0, 100, 100)"
    by (simp_all add: rect_points_def)
  from distance_is_true_minimum [OF v, of "(110, 110)"] v m show ?thesis
    by blast
qed

section \<open>Thresholds of the classifier\<close>

text \<open>
  Claim C2. With the hand present and a non-negative real distance \<open>d\<close>, the result is
  DANGER exactly when \<open>d \<le> 60\<close>, WARNING exactly when \<open>60 < d \<le> 120\<close> and SAFE exactly
  when \<open>d > 120\<close>; the result is always one of the three, so the cases are exclusive and
  exhaustive.
\<close>

theorem classify_state_thresholds:
  assumes "0 \<le> d"
  shows "(classify_state (Number d) True = Inr DANGER \<longleftrightarrow> d \<le> 60) \<and>
         (classify_state (Number d) True = Inr WARNING \<longleftrightarrow> 60 < d \<and> d \<le> 120) \<and>
         (classify_state (Number d) True = Inr SAFE \<longleftrightarrow> d > 120) \<and>
         classify_state (Number d) True \<in> {Inr DANGER, Inr WARNING, Inr SAFE}"
  by (auto simp: classify_state_def)

theorem classify_state_thresholds_witness:
  "(0::real) \<le> 60 \<and> classify_state (Number 0) True = Inr DANGER \<and>
   classify_state (Number 60) True = Inr DANGER \<and>
   classify_state (Number 60.0001) True = Inr WARNING \<and>
   classify_state (Number 120) True = Inr WARNING \<and>
   classify_state (Number 120.0001) True = Inr SAFE"
  using classify_state_thresholds [of 0] classify_state_thresholds [of 60]
    classify_state_thresholds [of "60.0001"] classify_state_thresholds [of 120]
    classify_state_thresholds [of "120.0001"]
  by simp

section \<open>Presence override\<close>

text \<open>
  Claim C3. With \<open>hand_present = False\<close> the classifier returns SAFE for every distance
  argument: a number of any sign, the absent value, or any other object. The argument is
  never converted, so it cannot raise either.
\<close>

theorem classify_state_no_hand:
  "classify_state d False = Inr SAFE"
  by (simp add: classify_state_def)

section \<open>The branches of the distance function\<close>

text \<open>
  Claim C4. For a valid rectangle and a point strictly outside both spans (diagonally
  outside), the result is the least of the four Euclidean distances from the point to
  the corners \<open>(x1,y1)\<close>, \<open>(x1,y2)\<close>, \<open>(x2,y1)\<close>, \<open>(x2,y2)\<close>.
\<close>

theorem distance_diagonal_corners:
  assumes "valid_rect (x1, y1, x2, y2)"
    and "px < x1 \<or> x2 < px"
    and "py < y1 \<or> y2 < py"
  shows "distance_point_to_rect (px, py) (x1, y1, x2, y2) =
         Min {euclid (px, py) (x1, y1), euclid (px, py) (x1, y2),
              euclid (px, py) (x2, y1), euclid (px, py) (x2, y2)}"
proof -
  from assms have out: "\<not> (x1 \<le> px \<and> px \<le> x2 \<and> y1 \<le> py \<and> py \<le> y2)"
      "\<not> (x1 \<le> px \<and> px \<le> x2)" "\<not> (y1 \<le> py \<and> py \<le> y2)"
    by (auto simp: valid_rect_def)
  have "distance_point_to_rect (px, py) (x1, y1, x2, y2) =
        min_list [hypot (px - x1) (py - y1), hypot (px - x1) (py - y2),
                  hypot (px - x2) (py - y1), hypot (px - x2) (py - y2)]"
    unfolding distance_point_to_rect.simps if_not_P [OF out(1)] if_not_P [OF out(2)]
      if_not_P [OF out(3)]
    by simp
  then show ?thesis
    by (simp add: euclid_def)
qed

theorem distance_diagonal_corners_witness:
  "valid_rect (0, 0, 100, 100) \<and> (100::real) < 110 \<and>
   distance_point_to_rect (110, 110) (0, 0, 100, 100) = hypot 10 10"
proof -
  have v: "valid_rect (0, 0, 100, 100)"
    by (simp add: valid_rect_def)
  have le: "hypot 10 10 \<le> hypot 10 110" "hypot 10 10 \<le> hypot 110 10"
      "hypot 10 10 \<le> hypot 110 110"
    by (rule hypot_mono; simp)+
  from distance_diagonal_corners [OF v, of 110 110] v le show ?thesis
    by (simp add: euclid_def min_def)
qed

text \<open>
  Claim C5. For a valid rectangle: a point within the horizontal span and outside the
  vertical one gets the vertical gap (\<open>y1 - Py\<close> above the rectangle, \<open>Py - y2\<close>
  below it); a point within the vertical span and outside the horizontal one gets the
  horizontal gap (\<open>x1 - Px\<close> to the left, \<open>Px - x2\<close> to the right); the gap returned is
  strictly positive in both cases.
\<close>

theorem distance_axis_gap:
  assumes "valid_rect (x1, y1, x2, y2)"
  shows "(x1 \<le> px \<and> px \<le> x2 \<and> (py < y1 \<or> y2 < py) \<longrightarrow>
            distance_point_to_rect (px, py) (x1, y1, x2, y2) =
              (if py < y1 then y1 - py else py - y2) \<and>
            0 < distance_point_to_rect (px, py) (x1, y1, x2, y2)) \<and>
         (y1 \<le> py \<and> py \<le> y2 \<and> (px < x1 \<or> x2 < px) \<longrightarrow>
            distance_point_to_rect (px, py) (x1, y1, x2, y2) =
              (if px < x1 then x1 - px else px - x2) \<and>
            0 < distance_point_to_rect (px, py) (x1, y1, x2, y2))"
proof -
  from assms have lt: "x1 < x2" "y1 < y2"
    by (simp_all add: valid_rect_def)
  have vertical: "distance_point_to_rect (px, py) (x1, y1, x2, y2) =
        (if py < y1 then y1 - py else py - y2) \<and>
      0 < distance_point_to_rect (px, py) (x1, y1, x2, y2)"
    if "x1 \<le> px" "px \<le> x2" "py < y1 \<or> y2 < py"
    using that lt by auto
  have horizontal: "distance_point_to_rect (px, py) (x1, y1, x2, y2) =
        (if px < x1 then x1 - px else px - x2) \<and>
      0 < distance_point_to_rect (px, py) (x1, y1, x2, y2)"
    if "y1 \<le> py" "py \<le> y2" "px < x1 \<or> x2 < px"
    using that lt by auto
  from vertical horizontal show ?thesis
    by blast
qed

theorem distance_axis_gap_witness:
  "valid_rect (0, 0, 100, 100) \<and>
   distance_point_to_rect (50, - 30) (0, 0, 100, 100) = 30 \<and>
   distance_point_to_rect (50, 140) (0, 0, 100, 100) = 40 \<and>
   distance_point_to_rect (150, 50) (0, 0, 100, 100) = 50 \<and>
   distance_point_to_rect (- 20, 50) (0, 0, 100, 100) = 20"
proof -
  have v: "valid_rect (0, 0, 100, 100)"
    by (simp add: valid_rect_def)
  from distance_axis_gap [OF v, of 50 "- 30"] distance_axis_gap [OF v, of 50 140]
    distance_axis_gap [OF v, of 150 50] distance_axis_gap [OF v, of "- 20" 50] v
  show ?thesis
    by simp
qed

section \<open>Symmetry\<close>

lemma nearest_reflect_x:
  assumes "x1 < x2"
  shows "nearest_point_distance (- px, py) (- x2, y1, - x1, y2) =
         nearest_point_distance (px, py) (x1, y1, x2, y2)"
  unfolding nearest_point_distance_def nearest_point_def euclid_def
  using assms by (intro hypot_cong_abs) (auto simp: max_def min_def)

lemma nearest_reflect_y:
  assumes "y1 < y2"
  shows "nearest_point_distance (px, - py) (x1, - y2, x2, - y1) =
         nearest_point_distance (px, py) (x1, y1, x2, y2)"
  unfolding nearest_point_distance_def nearest_point_def euclid_def
  using assms by (intro hypot_cong_abs) (auto simp: max_def min_def)

text \<open>
  Claim C6. For a valid rectangle the distance is unchanged when point and rectangle are
  both mirrored in the vertical axis (\<open>x\<close> negated, so the edges \<open>x1\<close> and \<open>x2\<close> swap
  roles) or both mirrored in the horizontal axis (\<open>y\<close> negated likewise).
\<close>

theorem distance_reflection_invariant:
  assumes "valid_rect (x1, y1, x2, y2)"
  shows "distance_point_to_rect (- px, py) (- x2, y1, - x1, y2) =
           distance_point_to_rect (px, py) (x1, y1, x2, y2) \<and>
         distance_point_to_rect (px, - py) (x1, - y2, x2, - y1) =
           distance_point_to_rect (px, py) (x1, y1, x2, y2)"
proof -
  from assms have lt: "x1 < x2" "y1 < y2" "- x2 < - x1" "- y2 < - y1"
    by (simp_all add: valid_rect_def)
  have "distance_point_to_rect (- px, py) (- x2, y1, - x1, y2) =
        nearest_point_distance (- px, py) (- x2, y1, - x1, y2)"
    using lt(3) lt(2) by (rule distance_eq_nearest)
  moreover have "distance_point_to_rect (px, - py) (x1, - y2, x2, - y1) =
        nearest_point_distance (px, - py) (x1, - y2, x2, - y1)"
    using lt(1) lt(4) by (rule distance_eq_nearest)
  moreover have "distance_point_to_rect (px, py) (x1, y1, x2, y2) =
        nearest_point_distance (px, py) (x1, y1, x2, y2)"
    using lt(1) lt(2) by (rule distance_eq_nearest)
  ultimately show ?thesis
    using nearest_reflect_x [OF lt(1)] nearest_reflect_y [OF lt(2)] by simp
qed

theorem distance_reflection_invariant_witness:
  "valid_rect (0, 0, 100, 100) \<and>
   distance_point_to_rect (- 150, 50) (- 100, 0, - 0, 100) = 50 \<and>
   distance_point_to_rect (150, - 50) (0, - 100, 100, - 0) = 50"
proof -
  have v: "valid_rect (0, 0, 100, 100)"
    by (simp add: valid_rect_def)
  have "distance_point_to_rect (150, 50) (0, 0, 100, 100) = 50"
    by simp
  with distance_reflection_invariant [OF v, of 150 50] v show ?thesis
    by simp
qed

section \<open>Totality of the classifier\<close>

lemma distance_nonneg:
  assumes "valid_rect R"
  shows "0 \<le> distance_point_to_rect P R"
proof -
  obtain x1 y1 x2 y2 where R: "R = (x1, y1, x2, y2)"
    by (cases R) auto
  obtain px py where P: "P = (px, py)"
    by (cases P) auto
  from assms R have "x1 < x2" "y1 < y2"
    by (simp_all add: valid_rect_def)
  then have "distance_point_to_rect P R = nearest_point_distance P R"
    unfolding P R by (rule distance_eq_nearest)
  then show ?thesis
    by (simp add: nearest_point_distance_def euclid_def hypot_nonneg)
qed

lemma classify_state_returns:
  assumes "well_formed_input distance hand_present"
  shows "\<exists>s. classify_state distance hand_present = Inr s"
proof (cases distance)
  case (Number d)
  then show ?thesis
    by (simp add: classify_state_def)
next
  case Absent
  with assms have "\<not> hand_present"
    by (simp add: well_formed_input_def)
  then show ?thesis
    by (simp add: classify_state_def)
next
  case Other
  with assms show ?thesis
    by (simp add: well_formed_input_def)
qed

lemma fallback_unreachable: "\<not> fallback_reached d"
  by (auto simp: fallback_reached_def)

text \<open>
  Claim C7. On well-formed input neither function fails. For a rectangle honouring the
  invariant the distance function returns a non-negative real, which is itself
  well-formed input of the classifier with the hand present. The classifier returns
  a state for every well-formed pair: a non-negative real distance with either presence
  flag, or the absent distance of a frame without a hand. With the hand present and
  a non-negative real distance, in particular the one the distance function returns, one
  of the three threshold guards holds, so the trailing fallback return is not reached.
\<close>

theorem total_on_well_formed_input:
  assumes "valid_rect R" and "well_formed_input distance hand_present" and "0 \<le> x"
  shows "0 \<le> distance_point_to_rect P R \<and>
         well_formed_input (Number (distance_point_to_rect P R)) True \<and>
         (\<exists>s. classify_state distance hand_present = Inr s) \<and>
         (\<exists>s. classify_state (Number x) True = Inr s) \<and>
         \<not> fallback_reached x \<and>
         (\<exists>s. classify_state (Number (distance_point_to_rect P R)) True = Inr s) \<and>
         \<not> fallback_reached (distance_point_to_rect P R)"
proof -
  have nonneg: "0 \<le> distance_point_to_rect P R"
    using assms(1) by (rule distance_nonneg)
  then have wf: "well_formed_input (Number (distance_point_to_rect P R)) True"
    by (simp add: well_formed_input_def)
  have wfx: "well_formed_input (Number x) True"
    using assms(3) by (simp add: well_formed_input_def)
  from nonneg wf classify_state_returns [OF assms(2)] classify_state_returns [OF wfx]
    classify_state_returns [OF wf] fallback_unreachable [of x]
    fallback_unreachable [of "distance_point_to_rect P R"]
  show ?thesis
    by blast
qed

theorem total_on_well_formed_input_witness:
  "valid_rect (220, 140, 420, 340) \<and> well_formed_input Absent False \<and> (0::real) \<le> 60 \<and>
   0 \<le> distance_point_to_rect (500, 400) (220, 140, 420, 340) \<and>
   (\<exists>s. classify_state Absent False = Inr s) \<and>
   (\<exists>s. classify_state (Number 60) True = Inr s) \<and>
   \<not> fallback_reached 60"
proof -
  have v: "valid_rect (220, 140, 420, 340)"
    by (simp add: valid_rect_def)
  have w: "well_formed_input Absent False"
    by (simp add: well_formed_input_def)
  have n: "(0::real) \<le> 60"
    by simp
  from total_on_well_formed_input [OF v w n, of "(500, 400)"] v w n show ?thesis
    by blast
qed

text \<open>
  The pair of an absent distance and \<open>hand_present = True\<close> is not well-formed input,
  and the frame loop never makes that call: there the classifier would convert the
  argument first, and \<^verbatim>\<open>float(None)\<close> raises a \<^verbatim>\<open>TypeError\<close>.
\<close>

lemma classify_state_absent_with_hand:
  "\<not> well_formed_input Absent True \<and> classify_state Absent True = Inl TypeError"
  by (simp add: classify_state_def well_formed_input_def)

section \<open>The rectangle under keyboard control\<close>

lemma clamped_in_frame:
  assumes "ax1 < ax2" "ay1 < ay2"
  shows "rect_in_frame
           \<lparr>rect_x1 = clamp ax1 0 (FRAME_W - 1), rect_y1 = clamp ay1 0 (FRAME_H - 1),
            rect_x2 = clamp ax2 1 FRAME_W, rect_y2 = clamp ay2 1 FRAME_H\<rparr>"
proof -
  have "clamp ax1 0 639 < clamp ax2 1 640" "clamp ay1 0 479 < clamp ay2 1 480"
    using clamp_step [OF assms(1), of 0 639] clamp_step [OF assms(2), of 0 479]
    by simp_all
  moreover have "0 \<le> clamp ax1 0 639 \<and> clamp ax1 0 639 \<le> 639"
      "1 \<le> clamp ax2 1 640 \<and> clamp ax2 1 640 \<le> 640"
      "0 \<le> clamp ay1 0 479 \<and> clamp ay1 0 479 \<le> 479"
      "1 \<le> clamp ay2 1 480 \<and> clamp ay2 1 480 \<le> 480"
    by (rule clamp_bounds, simp)+
  ultimately show ?thesis
    by (simp add: rect_in_frame_def FRAME_W_def FRAME_H_def)
qed

lemma handle_key_in_frame:
  assumes "rect_in_frame r"
  shows "rect_in_frame (handle_key key r)"
proof -
  have lt: "rect_x1 r < rect_x2 r" "rect_y1 r < rect_y2 r"
    using assms by (simp_all add: rect_in_frame_def)
  show ?thesis
    unfolding handle_key_def Let_def
    using assms lt by (auto intro!: clamped_in_frame)
qed

lemma run_keys_in_frame: "rect_in_frame r \<Longrightarrow> rect_in_frame (run_keys r keys)"
  by (induction keys arbitrary: r) (simp_all add: handle_key_in_frame)

lemma initial_rect_in_frame: "rect_in_frame initial_rect"
  by (simp add: rect_in_frame_def initial_rect_def FRAME_W_def FRAME_H_def)

lemma in_frame_valid: "rect_in_frame r \<Longrightarrow> valid_rect (rect_tuple r)"
  by (simp add: rect_in_frame_def valid_rect_def rect_tuple_def)

text \<open>
  Claim C8. Starting from the rectangle \<open>(220, 140, 420, 340)\<close>, after every finite
  sequence of keys read by the loop (the W/A/S/D keys, which move and clamp, and any
  other key, which leaves the rectangle alone) the rectangle has \<open>x2 > x1\<close> and
  \<open>y2 > y1\<close>, lies within the 640 by 480 frame, and the tuple handed to the distance
  function satisfies the structural invariant.
\<close>

theorem rect_invariant_after_keys:
  "rect_in_frame (run_keys initial_rect keys) \<and>
   valid_rect (rect_tuple (run_keys initial_rect keys))"
  using run_keys_in_frame [OF initial_rect_in_frame, of keys]
  by (simp add: in_frame_valid)

text \<open>
  Twenty-three presses of \<^verbatim>\<open>'d'\<close>: the right edge stops at the frame width
  while the left edge keeps moving, and the rectangle stays well formed.
\<close>

theorem rect_invariant_after_keys_witness:
  "run_keys initial_rect
      [ord CHR ''d'', ord CHR ''d'', ord CHR ''d'', ord CHR ''d'', ord CHR ''d'', ord
      CHR ''d'', ord CHR ''d'', ord CHR ''d'', ord CHR ''d'', ord CHR ''d'', ord CHR
      ''d'', ord CHR ''d'', ord CHR ''d'', ord CHR ''d'', ord CHR ''d'', ord CHR
      ''d'', ord CHR ''d'', ord CHR ''d'', ord CHR ''d'', ord CHR ''d'', ord CHR
      ''d'', ord CHR ''d'', ord CHR ''d''] =
     \<lparr>rect_x1 = 450, rect_y1 = 140, rect_x2 = 640, rect_y2 = 340\<rparr> \<and>
   rect_in_frame \<lparr>rect_x1 = 450, rect_y1 = 140, rect_x2 = 640, rect_y2 = 340\<rparr>"
proof -
  have d: "handle_key (ord CHR ''d'') r =
      \<lparr>rect_x1 = clamp (rect_x1 r + 10) 0 639, rect_y1 = clamp (rect_y1 r) 0 479,
       rect_x2 = clamp (rect_x2 r + 10) 1 640, rect_y2 = clamp (rect_y2 r) 1 480\<rparr>" for r
    by (simp add: handle_key_def ord_def FRAME_W_def FRAME_H_def)
  have q: "ord CHR ''d'' \<noteq> ord CHR ''q''"
    by (simp add: ord_def)
  have run: "run_keys initial_rect
      [ord CHR ''d'', ord CHR ''d'', ord CHR ''d'', ord CHR ''d'', ord CHR ''d'', ord
      CHR ''d'', ord CHR ''d'', ord CHR ''d'', ord CHR ''d'', ord CHR ''d'', ord CHR
      ''d'', ord CHR ''d'', ord CHR ''d'', ord CHR ''d'', ord CHR ''d'', ord CHR
      ''d'', ord CHR ''d'', ord CHR ''d'', ord CHR ''d'', ord CHR ''d'', ord CHR
      ''d'', ord CHR ''d'', ord CHR ''d''] =
     \<lparr>rect_x1 = 450, rect_y1 = 140, rect_x2 = 640, rect_y2 = 340\<rparr>"
    by (simp add: d q clamp_def initial_rect_def)
  from rect_invariant_after_keys [of
      "[ord CHR ''d'', ord CHR ''d'', ord CHR ''d'', ord CHR ''d'', ord CHR ''d'', ord
      CHR ''d'', ord CHR ''d'', ord CHR ''d'', ord CHR ''d'', ord CHR ''d'', ord CHR
      ''d'', ord CHR ''d'', ord CHR ''d'', ord CHR ''d'', ord CHR ''d'', ord CHR
      ''d'', ord CHR ''d'', ord CHR ''d'', ord CHR ''d'', ord CHR ''d'', ord CHR
      ''d'', ord CHR ''d'', ord CHR ''d'']"] run
  show ?thesis
    by simp
qed

section \<open>Purity\<close>

text \<open>
  The language can express functions that are not pure, and the interpreter tells them
  apart: a body that reads a global returns what the store holds, and a body that
  assigns to a global leaves another store behind.
\<close>

lemma global_read_observable:
  "fst (call_function [] [Return (Global ''k'')] [] [''k'' \<mapsto> Num 1]) \<noteq>
   fst (call_function [] [Return (Global ''k'')] [] [''k'' \<mapsto> Num 2])"
  by (simp add: call_function_def)

lemma global_write_observable:
  "snd (call_function [] [GlobalAssign ''k'' (Const (Num 1))] [] Map.empty) \<noteq> Map.empty"
  by (simp add: call_function_def)

subsection \<open>A body without global access neither reads nor writes the store\<close>

lemma collect_cong:
  assumes "\<And>x. x \<in> set xs \<Longrightarrow> f x = h x"
  shows "collect (map f xs) = collect (map h xs)"
proof -
  from assms have "map f xs = map h xs"
    by simp
  then show ?thesis
    by (rule arg_cong)
qed

lemma eval_frame:
  "no_global_expr e \<Longrightarrow> eval e g l = eval e g' l"
  "list_all no_global_expr es \<Longrightarrow> eval_list es g l = eval_list es g' l"
proof (induction e g l and es g l rule: eval_eval_list.induct)
  case (12 body names iter g l)
  from 12 have iter: "eval iter g l = eval iter g' l"
    by simp
  show ?case
  proof (cases "eval iter g' l")
    case (Inl e)
    with iter show ?thesis by simp
  next
    case (Inr v)
    show ?thesis
    proof (cases v)
      case (Seq vs)
      have "collect (map (\<lambda>v. case bind_targets names v l of Inl e \<Rightarrow> Inl e
                               | Inr l' \<Rightarrow> eval body g l') vs) =
            collect (map (\<lambda>v. case bind_targets names v l of Inl e \<Rightarrow> Inl e
                               | Inr l' \<Rightarrow> eval body g' l') vs)"
      proof (rule collect_cong)
        fix x assume "x \<in> set vs"
        with 12 iter Inr Seq
        show "(case bind_targets names x l of Inl e \<Rightarrow> Inl e | Inr l' \<Rightarrow> eval body g l') =
              (case bind_targets names x l of Inl e \<Rightarrow> Inl e | Inr l' \<Rightarrow> eval body g' l')"
          by (cases "bind_targets names x l") simp_all
      qed
      with iter Inr Seq show ?thesis by simp
    qed (use iter Inr in simp_all)
  qed
qed (auto split: sum.splits)

lemma exec_store_unchanged:
  "no_global_stmt s \<Longrightarrow> snd (exec_stmt s g l) = g"
  "list_all no_global_stmt ss \<Longrightarrow> snd (exec_block ss g l) = g"
proof (induction s g l and ss g l rule: exec_stmt_exec_block.induct)
  case (7 s ss g l)
  then show ?case
    by (cases "exec_stmt s g l"; cases "fst (exec_stmt s g l)") auto
qed (auto split: sum.splits)

lemma exec_flow_frame:
  "no_global_stmt s \<Longrightarrow> fst (exec_stmt s g l) = fst (exec_stmt s g' l)"
  "list_all no_global_stmt ss \<Longrightarrow> fst (exec_block ss g l) = fst (exec_block ss g' l)"
proof (induction s g l and ss g l rule: exec_stmt_exec_block.induct)
  case (1 x e g l)
  then show ?case using eval_frame(1) [of e g l g'] by (auto split: sum.splits)
next
  case (2 names e g l)
  then show ?case using eval_frame(1) [of e g l g'] by (auto split: sum.splits)
next
  case (3 x e g l)
  then show ?case by simp
next
  case (4 c thn els g l)
  then show ?case using eval_frame(1) [of c g l g'] by (auto split: sum.splits)
next
  case (5 e g l)
  then show ?case using eval_frame(1) [of e g l g'] by (auto split: sum.splits)
next
  case (6 g l)
  show ?case by simp
next
  case (7 s ss g l)
  then have pure: "no_global_stmt s" "list_all no_global_stmt ss"
    by simp_all
  obtain f where a: "exec_stmt s g l = (f, g)"
    using exec_store_unchanged(1) [OF pure(1), of g l] by (cases "exec_stmt s g l") simp
  have b: "exec_stmt s g' l = (f, g')"
    using exec_store_unchanged(1) [OF pure(1), of g' l] 7(1) [OF pure(1)] a
    by (cases "exec_stmt s g' l") simp
  show ?case
  proof (cases f)
    case (Next l')
    with 7(2) [of f g l'] a pure(2) have "fst (exec_block ss g l') = fst (exec_block ss g' l')"
      by simp
    with a b Next show ?thesis by simp
  qed (use a b in simp_all)
qed

lemma call_function_pure:
  assumes "list_all no_global_stmt body"
  shows "call_function params body args g = (fst (call_function params body args g'), g)"
proof -
  let ?l = "map_of (zip params args)"
  obtain f where a: "exec_block body g ?l = (f, g)"
    using exec_store_unchanged(2) [OF assms, of g ?l] by (cases "exec_block body g ?l") simp
  have b: "exec_block body g' ?l = (f, g')"
    using exec_store_unchanged(2) [OF assms, of g' ?l] exec_flow_frame(2) [OF assms, of g ?l g'] a
    by (cases "exec_block body g' ?l") simp
  show ?thesis
    by (cases f) (simp_all add: call_function_def a b)
qed

subsection \<open>The two bodies\<close>

lemma distance_body_no_global: "list_all no_global_stmt distance_point_to_rect_body"
  by (simp add: distance_point_to_rect_body_def)

lemma classify_body_no_global: "list_all no_global_stmt classify_state_body"
  by (simp add: classify_state_body_def)

text \<open>
  Run by the interpreter on the documented argument types, the two bodies compute what
  the functional model of the first section computes, in every store.
\<close>

lemma distance_body_agrees:
  "exec_call (Call_distance (point_val (px, py)) (rect_val (x1, y1, x2, y2))) g =
     (Returned (Num (distance_point_to_rect (px, py) (x1, y1, x2, y2))), g)"
  by (simp add: call_function_def distance_point_to_rect_params_def
      distance_point_to_rect_body_def hypot_of_def)

lemma classify_body_agrees:
  "exec_call (Call_classify (arg_val d) (Bool hp)) g = (result_outcome (classify_state d hp), g)"
  by (cases d)
    (simp_all add: call_function_def classify_state_params_def classify_state_body_def
      classify_state_def)

lemma exec_call_pure: "exec_call c g = (fst (exec_call c g'), g)"
proof (cases c)
  case (Call_distance pt rect)
  then show ?thesis
    using call_function_pure [OF distance_body_no_global] by simp
next
  case (Call_classify d hp)
  then show ?thesis
    using call_function_pure [OF classify_body_no_global] by simp
qed

lemma run_calls_pure:
  "run_calls cs g = (map (\<lambda>c. fst (exec_call c g')) cs, g)"
proof (induction cs arbitrary: g)
  case Nil
  show ?case by simp
next
  case (Cons c cs)
  from exec_call_pure [of c g g'] Cons.IH [of g] show ?case
    by simp
qed

text \<open>
  Claim C9. Take any two sessions of calls of the two functions, with any argument
  values, started in any two stores. A call of one session and a call of the other with
  the same function and the same arguments have the same outcome (the value returned or
  the exception raised), wherever they stand and whatever was called before them; and
  a session leaves the store exactly as it found it. The statement is about the bodies as
  the interpreter runs them: it fails for a body that reads or assigns a global.
\<close>

theorem calls_are_pure:
  assumes "i < length cs" and "j < length cs'" and "cs ! i = cs' ! j"
  shows "fst (run_calls cs g) ! i = fst (run_calls cs' g') ! j \<and>
         snd (run_calls cs g) = g"
proof -
  have "fst (run_calls cs g) ! i = fst (exec_call (cs ! i) g)"
    using assms(1) by (simp add: run_calls_pure [of cs g g])
  moreover have "fst (run_calls cs' g') ! j = fst (exec_call (cs' ! j) g)"
    using assms(2) by (simp add: run_calls_pure [of cs' g' g])
  moreover have "snd (run_calls cs g) = g"
    by (simp add: run_calls_pure [of cs g g])
  ultimately show ?thesis
    using assms(3) by simp
qed

theorem calls_are_pure_witness:
  "fst (run_calls
          [Call_classify (Num 60) (Bool True),
           Call_distance (Seq [Num 50, Num (- 30)]) (Seq [Num 0, Num 0, Num 100, Num 100])]
          [''k'' \<mapsto> Num 1]) ! 1 =
   fst (run_calls
          [Call_distance (Seq [Num 50, Num (- 30)]) (Seq [Num 0, Num 0, Num 100, Num 100])]
          Map.empty) ! 0 \<and>
   snd (run_calls
          [Call_classify (Num 60) (Bool True),
           Call_distance (Seq [Num 50, Num (- 30)]) (Seq [Num 0, Num 0, Num 100, Num 100])]
          [''k'' \<mapsto> Num 1]) = [''k'' \<mapsto> Num 1] \<and>
   fst (run_calls
          [Call_distance (Seq [Num 50, Num (- 30)]) (Seq [Num 0, Num 0, Num 100, Num 100])]
          Map.empty) ! 0 = Returned (Num 30)"
proof -
  have d: "exec_call
      (Call_distance (Seq [Num 50, Num (- 30)]) (Seq [Num 0, Num 0, Num 100, Num 100]))
      Map.empty = (Returned (Num 30), Map.empty)"
    using distance_body_agrees [of 50 "- 30" 0 0 100 100 Map.empty] by simp
  have r: "fst (run_calls
      [Call_distance (Seq [Num 50, Num (- 30)]) (Seq [Num 0, Num 0, Num 100, Num 100])]
      Map.empty) ! 0 = Returned (Num 30)"
    unfolding run_calls.simps d by simp
  from calls_are_pure [of 1
      "[Call_classify (Num 60) (Bool True),
        Call_distance (Seq [Num 50, Num (- 30)]) (Seq [Num 0, Num 0, Num 100, Num 100])]"
      0
      "[Call_distance (Seq [Num 50, Num (- 30)]) (Seq [Num 0, Num 0, Num 100, Num 100])]"
      "[''k'' \<mapsto> Num 1]" Map.empty] r
  show ?thesis
    by simp
qed

section \<open>The frame loop against the uniform classification\<close>

text \<open>
  Claim C10. The state \<^verbatim>\<open>main\<close> computes for a frame equals the uniform call of the
  classifier with \<open>hand_present = (centroid is not None)\<close>: with a centroid it is the
  classification of the distance of the centroid with the hand present, and without one
  it is what the classifier returns for any distance argument with the hand not present.
\<close>

theorem compute_frame_refines_uniform:
  "snd (compute_frame centroid r) = uniform_frame_state centroid r \<and>
   (\<forall>c. centroid = Some c \<longrightarrow>
      snd (compute_frame centroid r) =
        classify_state (Number (distance_point_to_rect (pixel_point c) (rect_tuple r))) True) \<and>
   (centroid = None \<longrightarrow> (\<forall>d. snd (compute_frame centroid r) = classify_state d False))"
  by (cases centroid) (simp_all add: compute_frame_def uniform_frame_state_def classify_state_def)

theorem compute_frame_refines_uniform_witness:
  "snd (compute_frame None initial_rect) = classify_state Absent False \<and>
   snd (compute_frame None initial_rect) = classify_state (Number 5) False \<and>
   snd (compute_frame (Some (320, 400)) initial_rect) = uniform_frame_state (Some (320, 400)) initial_rect \<and>
   snd (compute_frame (Some (320, 400)) initial_rect) = Inr DANGER"
proof -
  have "distance_point_to_rect (pixel_point (320, 400)) (rect_tuple initial_rect) = 60"
    by (simp add: pixel_point_def rect_tuple_def initial_rect_def)
  then have "classify_state
      (Number (distance_point_to_rect (pixel_point (320, 400)) (rect_tuple initial_rect))) True =
      Inr DANGER"
    by (simp add: classify_state_def)
  with compute_frame_refines_uniform [of None initial_rect]
    compute_frame_refines_uniform [of "Some (320, 400)" initial_rect]
  show ?thesis
    by metis
qed

end
